theory Spec2Isabelle
  imports Main "HOL-Library.Word" "HOL-Library.Sublist"
begin

section \<open>Stock-chart extraction and rendering of the chat front end\<close>

text \<open>
  The two functions verified here are \<^verbatim>\<open>textRenderer\<close> of the chat page (it looks for
  an embedded chart payload in an assistant message) and the \<^verbatim>\<open>StockChart\<close> component
  (it derives the figures shown around the chart).  Both are TypeScript, so the
  development starts with the fragment of JavaScript they run on: strings of 16-bit code
  units, IEEE doubles, untyped values, and backtracking regular expressions.
\<close>

subsection \<open>JavaScript strings\<close>

type_synonym jschar = "16 word"
type_synonym jsstring = "jschar list"

text \<open>An ASCII literal as a JavaScript string.\<close>

definition js :: "string \<Rightarrow> jsstring" where
  "js s = map of_char s"

text \<open>
  The code units that the regular-expression class \<^verbatim>\<open>\s\<close> matches and that
  \<^verbatim>\<open>String.prototype.trim\<close> strips: WhiteSpace and LineTerminator of ECMA-262.
\<close>

definition is_ws :: "jschar \<Rightarrow> bool" where
  "is_ws c = (c \<in> {0x9, 0xA, 0xB, 0xC, 0xD, 0x20, 0xA0, 0x1680, 0x2028, 0x2029, 0x202F,
                    0x205F, 0x3000, 0xFEFF}
              \<or> (0x2000 \<le> c \<and> c \<le> 0x200A))"

definition trim :: "jsstring \<Rightarrow> jsstring" where
  "trim s = rev (dropWhile is_ws (rev (dropWhile is_ws s)))"

text \<open>
  \<^verbatim>\<open>text.replace(pattern, replacement)\<close> with a string pattern: the first occurrence
  of the pattern is replaced (an empty pattern occurs at index 0); the replacement used by
  the code is the empty string, which has no substitution patterns.
\<close>

fun replace_first :: "jsstring \<Rightarrow> jsstring \<Rightarrow> jsstring \<Rightarrow> jsstring" where
  "replace_first [] pat rep = (if pat = [] then rep else [])"
| "replace_first (c # cs) pat rep =
     (if prefix pat (c # cs) then rep @ drop (length pat) (c # cs)
      else c # replace_first cs pat rep)"

subsection \<open>JavaScript numbers\<close>

text \<open>
  A Number is an IEEE 754 double: NaN, an infinity, or the finite value
  \<open>(-1)\<^sup>s * m * 2\<^sup>e\<close>.  \<open>Finite s m e\<close> is kept in lowest terms (\<open>m\<close> odd, or
  \<open>m = 0\<close> and \<open>e = 0\<close> for the two zeros), so equal doubles are equal terms.
  The sign is \<open>True\<close> for negative.
\<close>

datatype jsnum = NaN | Infinity bool | Finite bool nat int

fun bit_length :: "nat \<Rightarrow> nat" where
  "bit_length n = (if n = 0 then 0 else Suc (bit_length (n div 2)))"

fun odd_part :: "nat \<Rightarrow> int \<Rightarrow> nat \<times> int" where
  "odd_part m e =
     (if m = 0 then (0, 0) else if even m then odd_part (m div 2) (e + 1) else (m, e))"

definition finite_num :: "bool \<Rightarrow> nat \<Rightarrow> int \<Rightarrow> jsnum" where
  "finite_num s m e = (case odd_part m e of (m', e') \<Rightarrow> Finite s m' e')"

text \<open>
  \<open>round_ratio s a b e\<close> is the double nearest to \<open>(-1)\<^sup>s * (a / b) * 2\<^sup>e\<close> for
  \<open>b > 0\<close>, ties to the even mantissa: 53 bits of precision, gradual underflow below
  \<open>2\<^sup>-\<^sup>1\<^sup>0\<^sup>2\<^sup>2\<close> (unit \<open>2\<^sup>-\<^sup>1\<^sup>0\<^sup>7\<^sup>4\<close>), overflow to an infinity from
  \<open>2\<^sup>1\<^sup>0\<^sup>2\<^sup>4\<close>.  \<open>binary_exponent a b\<close> is the integer \<open>d\<close> with
  \<open>2\<^sup>d \<le> a / b < 2\<^sup>d\<^sup>+\<^sup>1\<close>, \<open>nearest num den\<close> the integer nearest to
  \<open>num / den\<close>, and \<open>u\<close> the exponent of the unit in the last place.
\<close>

definition binary_exponent :: "nat \<Rightarrow> nat \<Rightarrow> int" where
  "binary_exponent a b =
     (let d = int (bit_length a) - int (bit_length b)
      in if b * 2 ^ nat d \<le> a * 2 ^ nat (- d) then d else d - 1)"

definition nearest :: "nat \<Rightarrow> nat \<Rightarrow> nat" where
  "nearest num den =
     (let q = num div den; r = num mod den
      in if 2 * r < den then q else if den < 2 * r then q + 1
         else if even q then q else q + 1)"

definition pack :: "bool \<Rightarrow> nat \<Rightarrow> int \<Rightarrow> jsnum" where
  "pack s n u =
     (if n = 0 then Finite s 0 0
      else if 971 < u \<or> (u = 971 \<and> 2 ^ 53 \<le> n) then Infinity s
      else finite_num s n u)"

definition round_at :: "bool \<Rightarrow> nat \<Rightarrow> nat \<Rightarrow> int \<Rightarrow> int \<Rightarrow> jsnum" where
  "round_at s a b e u = pack s (nearest (a * 2 ^ nat (e - u)) (b * 2 ^ nat (u - e))) u"

definition round_ratio :: "bool \<Rightarrow> nat \<Rightarrow> nat \<Rightarrow> int \<Rightarrow> jsnum" where
  "round_ratio s a b e =
     (if a = 0 then Finite s 0 0
      else round_at s a b e (max (e + binary_exponent a b - 52) (- 1074)))"

text \<open>The double written as the decimal literal \<open>i / 10\<^sup>k\<close>, and the double of a length.\<close>

definition js_decimal :: "int \<Rightarrow> nat \<Rightarrow> jsnum" where
  "js_decimal i k = round_ratio (i < 0) (nat \<bar>i\<bar>) (10 ^ k) 0"

definition js_of_nat :: "nat \<Rightarrow> jsnum" where
  "js_of_nat n = finite_num False n 0"

definition js_zero :: jsnum where
  "js_zero = Finite False 0 0"

definition signed :: "bool \<Rightarrow> nat \<Rightarrow> int" where
  "signed s m = (if s then - int m else int m)"

text \<open>
  The double of the exact sum \<open>a * 2\<^sup>e\<close>; an exact zero takes the sign \<open>z\<close>, which is
  negative only when both summands are negative zeros.
\<close>

definition round_sum :: "bool \<Rightarrow> int \<Rightarrow> int \<Rightarrow> jsnum" where
  "round_sum z a e = (if a = 0 then Finite z 0 0 else round_ratio (a < 0) (nat \<bar>a\<bar>) 1 e)"

fun js_neg :: "jsnum \<Rightarrow> jsnum" where
  "js_neg NaN = NaN"
| "js_neg (Infinity s) = Infinity (\<not> s)"
| "js_neg (Finite s m e) = Finite (\<not> s) m e"

fun js_add :: "jsnum \<Rightarrow> jsnum \<Rightarrow> jsnum" where
  "js_add NaN y = NaN"
| "js_add x NaN = NaN"
| "js_add (Infinity s) (Infinity t) = (if s = t then Infinity s else NaN)"
| "js_add (Infinity s) (Finite t m e) = Infinity s"
| "js_add (Finite s m e) (Infinity t) = Infinity t"
| "js_add (Finite s1 m1 e1) (Finite s2 m2 e2) =
     round_sum (s1 \<and> s2)
       (signed s1 m1 * 2 ^ nat (e1 - e2) + signed s2 m2 * 2 ^ nat (e2 - e1)) (min e1 e2)"

definition js_sub :: "jsnum \<Rightarrow> jsnum \<Rightarrow> jsnum" where
  "js_sub x y = js_add x (js_neg y)"

fun js_mul :: "jsnum \<Rightarrow> jsnum \<Rightarrow> jsnum" where
  "js_mul NaN y = NaN"
| "js_mul x NaN = NaN"
| "js_mul (Infinity s) (Infinity t) = Infinity (s \<noteq> t)"
| "js_mul (Infinity s) (Finite t m e) = (if m = 0 then NaN else Infinity (s \<noteq> t))"
| "js_mul (Finite s m e) (Infinity t) = (if m = 0 then NaN else Infinity (s \<noteq> t))"
| "js_mul (Finite s1 m1 e1) (Finite s2 m2 e2) =
     round_ratio (s1 \<noteq> s2) (m1 * m2) 1 (e1 + e2)"

fun js_div :: "jsnum \<Rightarrow> jsnum \<Rightarrow> jsnum" where
  "js_div NaN y = NaN"
| "js_div x NaN = NaN"
| "js_div (Infinity s) (Infinity t) = NaN"
| "js_div (Infinity s) (Finite t m e) = Infinity (s \<noteq> t)"
| "js_div (Finite s m e) (Infinity t) = Finite (s \<noteq> t) 0 0"
| "js_div (Finite s1 m1 e1) (Finite s2 m2 e2) =
    (if m2 = 0 then (if m1 = 0 then NaN else Infinity (s1 \<noteq> s2))
     else round_ratio (s1 \<noteq> s2) m1 m2 (e1 - e2))"

text \<open>\<^verbatim>\<open>x >= y\<close> and \<^verbatim>\<open>x === y\<close> on Numbers: false on NaN, and the two zeros are equal.\<close>

fun js_ge :: "jsnum \<Rightarrow> jsnum \<Rightarrow> bool" where
  "js_ge NaN y = False"
| "js_ge x NaN = False"
| "js_ge (Infinity s) (Infinity t) = (t \<or> \<not> s)"
| "js_ge (Infinity s) (Finite t m e) = (\<not> s)"
| "js_ge (Finite s m e) (Infinity t) = t"
| "js_ge (Finite s1 m1 e1) (Finite s2 m2 e2) =
     (signed s2 m2 * 2 ^ nat (e2 - e1) \<le> signed s1 m1 * 2 ^ nat (e1 - e2))"

fun js_num_eq :: "jsnum \<Rightarrow> jsnum \<Rightarrow> bool" where
  "js_num_eq NaN y = False"
| "js_num_eq x NaN = False"
| "js_num_eq (Finite s1 m1 e1) (Finite s2 m2 e2) = (m1 = m2 \<and> e1 = e2 \<and> (s1 = s2 \<or> m1 = 0))"
| "js_num_eq x y = (x = y)"

text \<open>The decimal digits of a natural number.\<close>

fun digits :: "nat \<Rightarrow> jsstring" where
  "digits n = (if n < 10 then [of_nat (48 + n)] else digits (n div 10) @ [of_nat (48 + n mod 10)])"

declare bit_length.simps [simp del] odd_part.simps [simp del] digits.simps [simp del]

subsection \<open>JavaScript values\<close>

text \<open>
  The values \<^verbatim>\<open>JSON.parse\<close> produces, and \<^verbatim>\<open>undefined\<close> for a property that is not
  there.  An object is its list of own properties; \<open>map_of\<close> reads it.
\<close>

datatype jsval =
    Undefined
  | Null
  | Bool bool
  | Num jsnum
  | Str jsstring
  | Arr "jsval list"
  | Obj "(jsstring \<times> jsval) list"

datatype error = SyntaxError | TypeError

text \<open>ToBoolean.\<close>

fun truthy :: "jsval \<Rightarrow> bool" where
  "truthy Undefined = False"
| "truthy Null = False"
| "truthy (Bool b) = b"
| "truthy (Num NaN) = False"
| "truthy (Num (Infinity s)) = True"
| "truthy (Num (Finite s m e)) = (m \<noteq> 0)"
| "truthy (Str s) = (s \<noteq> [])"
| "truthy (Arr xs) = True"
| "truthy (Obj kvs) = True"

fun nullish :: "jsval \<Rightarrow> bool" where
  "nullish Undefined = True"
| "nullish Null = True"
| "nullish v = False"

text \<open>
  \<open>js_prop v k\<close> is the property read \<^verbatim>\<open>v.k\<close> for a value that is neither
  \<^verbatim>\<open>null\<close> nor \<^verbatim>\<open>undefined\<close> (on those the read throws a TypeError, which the
  callers below write out) and for the property names the code uses: \<^verbatim>\<open>type\<close>,
  \<^verbatim>\<open>data\<close>, \<^verbatim>\<open>ticker\<close>, \<^verbatim>\<open>company_name\<close>, \<^verbatim>\<open>period\<close>,
  \<^verbatim>\<open>current_price\<close>, \<^verbatim>\<open>price\<close> and \<^verbatim>\<open>length\<close>.  None of them is on a built-in
  prototype, except \<^verbatim>\<open>length\<close> of arrays and strings.  \<open>js_index v i\<close> is
  \<^verbatim>\<open>v[i]\<close>.
\<close>

fun js_prop :: "jsval \<Rightarrow> jsstring \<Rightarrow> jsval" where
  "js_prop (Obj kvs) k = (case map_of kvs k of Some v \<Rightarrow> v | None \<Rightarrow> Undefined)"
| "js_prop (Arr xs) k = (if k = js ''length'' then Num (js_of_nat (length xs)) else Undefined)"
| "js_prop (Str s) k = (if k = js ''length'' then Num (js_of_nat (length s)) else Undefined)"
| "js_prop v k = Undefined"

fun js_index :: "jsval \<Rightarrow> nat \<Rightarrow> jsval" where
  "js_index (Arr xs) i = (if i < length xs then xs ! i else Undefined)"
| "js_index (Str s) i = (if i < length s then Str [s ! i] else Undefined)"
| "js_index (Obj kvs) i = js_prop (Obj kvs) (digits i)"
| "js_index v i = Undefined"

text \<open>\<^verbatim>\<open>a || b\<close>, \<^verbatim>\<open>v === "literal"\<close> and \<^verbatim>\<open>v === number\<close>.\<close>

definition js_or :: "jsval \<Rightarrow> jsval \<Rightarrow> jsval" where
  "js_or a b = (if truthy a then a else b)"

definition strict_eq_str :: "jsval \<Rightarrow> jsstring \<Rightarrow> bool" where
  "strict_eq_str v s = (v = Str s)"

fun strict_eq_num :: "jsval \<Rightarrow> jsnum \<Rightarrow> bool" where
  "strict_eq_num (Num x) y = js_num_eq x y"
| "strict_eq_num v y = False"

text \<open>
  Built-ins of the platform that the code calls and this theory leaves open.  Every
  theorem below holds for each behaviour of them.
  \<^item> \<open>JSON_parse\<close>: \<^verbatim>\<open>JSON.parse\<close>, which returns a value or throws.
  \<^item> \<open>ToNumber_other\<close>: the conversion to a Number of a string, an array or an object
    (\<open>None\<close> when it throws a TypeError), which \<^verbatim>\<open>-\<close> and \<^verbatim>\<open>/\<close> apply to such an
    operand.
  \<^item> \<open>Number_toString\<close>: the decimal form of a finite Number from \<open>10\<^sup>2\<^sup>1\<close>, where
    \<^verbatim>\<open>toFixed\<close> falls back to it.
\<close>

record platform =
  JSON_parse :: "jsstring \<Rightarrow> error + jsval"
  ToNumber_other :: "jsval \<Rightarrow> jsnum option"
  Number_toString :: "jsnum \<Rightarrow> jsstring"

fun ToNumber :: "platform \<Rightarrow> jsval \<Rightarrow> error + jsnum" where
  "ToNumber P Undefined = Inr NaN"
| "ToNumber P Null = Inr js_zero"
| "ToNumber P (Bool b) = Inr (if b then js_of_nat 1 else js_zero)"
| "ToNumber P (Num x) = Inr x"
| "ToNumber P v = (case ToNumber_other P v of None \<Rightarrow> Inl TypeError | Some x \<Rightarrow> Inr x)"

text \<open>
  \<^verbatim>\<open>x.toFixed(f)\<close> on a Number, for \<open>0 \<le> f \<le> 100\<close>: the integer \<open>n\<close> with
  \<open>n / 10\<^sup>f\<close> nearest to \<open>|x|\<close> (the larger one of two), written with \<open>f\<close> digits
  after the point.  \<open>toFixed_call\<close> is the method call on any value: only a Number has
  the method.
\<close>

definition fraction_digits :: "jsstring \<Rightarrow> nat \<Rightarrow> jsstring" where
  "fraction_digits ds f =
     (let ds' = replicate (Suc f - length ds) (of_nat 48) @ ds;
          k = length ds' - f
      in take k ds' @ (if f = 0 then [] else js ''.'' @ drop k ds'))"

fun toFixed :: "platform \<Rightarrow> jsnum \<Rightarrow> nat \<Rightarrow> jsstring" where
  "toFixed P NaN f = js ''NaN''"
| "toFixed P (Infinity s) f = (if s then js ''-Infinity'' else js ''Infinity'')"
| "toFixed P (Finite s m e) f =
     (if s \<and> m \<noteq> 0 then js ''-'' else [])
     @ (if 10 ^ 21 * 2 ^ nat (- e) \<le> m * 2 ^ nat e
        then Number_toString P (Finite False m e)
        else fraction_digits
               (digits ((2 * m * 10 ^ f * 2 ^ nat e + 2 ^ nat (- e)) div (2 * 2 ^ nat (- e)))) f)"

fun toFixed_call :: "platform \<Rightarrow> jsval \<Rightarrow> nat \<Rightarrow> error + jsstring" where
  "toFixed_call P (Num x) f = Inr (toFixed P x f)"
| "toFixed_call P v f = Inl TypeError"

subsection \<open>Regular expressions\<close>

text \<open>
  The two regular expressions of the code are sequences of literals and of single
  character classes under \<^verbatim>\<open>*\<close>, \<^verbatim>\<open>*?\<close> and \<^verbatim>\<open>?\<close>, with one capture group.
  \<open>re_match\<close> is the backtracking matcher of ECMA-262 on such a sequence: a greedy
  quantifier tries to take a character before it tries the rest, a lazy one tries the rest
  first.  It returns the end of the match and the bounds of group 1, as indices into the
  whole text; \<open>n\<close> is the index of the next character.
\<close>

datatype cclass = AnyChar | Space | NotBrace | Newline

fun in_class :: "cclass \<Rightarrow> jschar \<Rightarrow> bool" where
  "in_class AnyChar c = True"
| "in_class Space c = is_ws c"
| "in_class NotBrace c = (c \<noteq> 0x7B \<and> c \<noteq> 0x7D)"
| "in_class Newline c = (c = 0xA)"

datatype item = Lit jsstring | Star cclass | LazyStar cclass | Opt cclass | GroupOpen | GroupClose

fun re_match ::
  "item list \<Rightarrow> jsstring \<Rightarrow> nat \<Rightarrow> nat \<times> nat \<Rightarrow> (nat \<times> nat \<times> nat) option" where
  "re_match [] s n g = Some (n, g)"
| "re_match (Lit l # r) s n g =
     (if prefix l s then re_match r (drop (length l) s) (n + length l) g else None)"
| "re_match (Star c # r) [] n g = re_match r [] n g"
| "re_match (Star c # r) (x # xs) n g =
     (if in_class c x
      then (case re_match (Star c # r) xs (Suc n) g of
              Some m \<Rightarrow> Some m
            | None \<Rightarrow> re_match r (x # xs) n g)
      else re_match r (x # xs) n g)"
| "re_match (LazyStar c # r) [] n g = re_match r [] n g"
| "re_match (LazyStar c # r) (x # xs) n g =
     (case re_match r (x # xs) n g of
        Some m \<Rightarrow> Some m
      | None \<Rightarrow> if in_class c x then re_match (LazyStar c # r) xs (Suc n) g else None)"
| "re_match (Opt c # r) [] n g = re_match r [] n g"
| "re_match (Opt c # r) (x # xs) n g =
     (if in_class c x
      then (case re_match r xs (Suc n) g of
              Some m \<Rightarrow> Some m
            | None \<Rightarrow> re_match r (x # xs) n g)
      else re_match r (x # xs) n g)"
| "re_match (GroupOpen # r) s n g = re_match r s n (n, snd g)"
| "re_match (GroupClose # r) s n g = re_match r s n (fst g, n)"

text \<open>
  \<open>re_exec r s i\<close> searches the text from index \<open>i\<close> on (\<open>s\<close> is the text from
  there) and returns the leftmost match: its start, its end and group 1.
  \<open>String_match\<close> is \<^verbatim>\<open>text.match(r)\<close> for a regular expression without the
  \<^verbatim>\<open>g\<close> flag: \<^verbatim>\<open>null\<close>, or the matched substring \<^verbatim>\<open>m[0]\<close> and the group
  \<^verbatim>\<open>m[1]\<close>.
\<close>

fun re_exec :: "item list \<Rightarrow> jsstring \<Rightarrow> nat \<Rightarrow> (nat \<times> nat \<times> nat \<times> nat) option" where
  "re_exec r [] i = (case re_match r [] i (i, i) of Some m \<Rightarrow> Some (i, m) | None \<Rightarrow> None)"
| "re_exec r (x # xs) i =
     (case re_match r (x # xs) i (i, i) of
        Some m \<Rightarrow> Some (i, m)
      | None \<Rightarrow> re_exec r xs (Suc i))"

definition slice :: "jsstring \<Rightarrow> nat \<Rightarrow> nat \<Rightarrow> jsstring" where
  "slice s i j = take (j - i) (drop i s)"

definition String_match :: "jsstring \<Rightarrow> item list \<Rightarrow> (jsstring \<times> jsstring) option" where
  "String_match text r =
     (case re_exec r text 0 of
        None \<Rightarrow> None
      | Some (i, e, a, b) \<Rightarrow> Some (slice text i e, slice text a b))"

subsection \<open>The chart payload extractor: \<^verbatim>\<open>textRenderer\<close>\<close>

text \<open>
  \<^verbatim>\<open>/```json\s*\n?([\s\S]*?)\n?```/\<close> and
  \<^verbatim>\<open>/\{[^{}]*"type":\s*"stock_chart"[\s\S]*?"data":\s*\[[\s\S]*?\][\s\S]*?\}/\<close>.
\<close>

definition fenced_re :: "item list" where
  "fenced_re =
     [Lit (js ''```json''), Star Space, Opt Newline,
      GroupOpen, LazyStar AnyChar, GroupClose,
      Opt Newline, Lit (js ''```'')]"

definition inline_re :: "item list" where
  \<open>inline_re =
     [Lit (js ''{''), Star NotBrace, Lit (js ''"type":''), Star Space, Lit (js ''"stock_chart"''),
      LazyStar AnyChar, Lit (js ''"data":''), Star Space, Lit (js ''[''),
      LazyStar AnyChar, Lit (js '']''), LazyStar AnyChar, Lit (js ''}'')]\<close>

text \<open>The props that \<^verbatim>\<open>textRenderer\<close> passes to \<^verbatim>\<open>StockChart\<close>, as they arrive: untyped.\<close>

record props =
  ticker :: jsval
  company_name :: jsval
  period :: jsval
  data :: jsval
  current_price :: jsval

text \<open>
  What \<^verbatim>\<open>textRenderer\<close> returns: the text itself, or the block made of the remaining
  text (its \<^verbatim>\<open>div\<close> is left out when that text is empty) and one \<^verbatim>\<open>StockChart\<close>
  element with its props.
\<close>

datatype rendered = PlainText jsstring | ChartBlock jsstring props

text \<open>
  The condition
  \<^verbatim>\<open>chartData.type === "stock_chart" && chartData.data && chartData.ticker\<close>
  and the attributes of the \<^verbatim>\<open>StockChart\<close> element.
\<close>

definition acceptance_test :: "jsval \<Rightarrow> bool" where
  "acceptance_test chartData =
     (strict_eq_str (js_prop chartData (js ''type'')) (js ''stock_chart'')
      \<and> truthy (js_prop chartData (js ''data''))
      \<and> truthy (js_prop chartData (js ''ticker'')))"

definition chart_props :: "jsval \<Rightarrow> props" where
  "chart_props chartData =
     \<lparr>ticker = js_prop chartData (js ''ticker''),
      company_name = js_or (js_prop chartData (js ''company_name'')) (js_prop chartData (js ''ticker'')),
      period = js_or (js_prop chartData (js ''period'')) (Str (js ''1mo'')),
      data = js_prop chartData (js ''data''),
      current_price = js_prop chartData (js ''current_price'')\<rparr>"

text \<open>
  The statements after \<^verbatim>\<open>JSON.parse\<close> inside either \<^verbatim>\<open>try\<close> block: the result is
  the returned element, \<open>None\<close> when control reaches the end of the block, or the
  TypeError of reading \<^verbatim>\<open>.type\<close> of \<^verbatim>\<open>null\<close>.  \<open>fragment\<close> is the matched
  text that \<^verbatim>\<open>replace\<close> removes.
\<close>

definition chart_element :: "jsstring \<Rightarrow> jsstring \<Rightarrow> jsval \<Rightarrow> error + rendered option" where
  "chart_element text fragment chartData =
     (if nullish chartData then Inl TypeError
      else if acceptance_test chartData
           then Inr (Some (ChartBlock (trim (replace_first text fragment [])) (chart_props chartData)))
           else Inr None)"

text \<open>
  An inner \<^verbatim>\<open>try { ... } catch (parseError) { console.error(...) }\<close>: the error is
  logged and control goes on after the block.
\<close>

definition try_chart :: "platform \<Rightarrow> jsstring \<Rightarrow> jsstring \<Rightarrow> jsstring \<Rightarrow> error + rendered option" where
  "try_chart P text fragment source =
     (case (case JSON_parse P source of
              Inl e \<Rightarrow> Inl e
            | Inr chartData \<Rightarrow> chart_element text fragment chartData) of
        Inl parseError \<Rightarrow> Inr None
      | Inr r \<Rightarrow> Inr r)"

text \<open>
  \<^verbatim>\<open>textRenderer\<close>: the fenced block first, with \<^verbatim>\<open>JSON.parse(jsonBlockMatch[1])\<close>,
  then the inline literal, with \<^verbatim>\<open>JSON.parse(inlineJsonMatch[0])\<close>; the outer
  \<^verbatim>\<open>catch\<close> and the end of the function return the text.
\<close>

definition textRenderer :: "platform \<Rightarrow> jsstring \<Rightarrow> error + rendered" where
  "textRenderer P text =
     (case
        (case (case String_match text fenced_re of
                 None \<Rightarrow> Inr None
               | Some (m0, m1) \<Rightarrow> try_chart P text m0 m1) of
           Inl e \<Rightarrow> Inl e
         | Inr (Some element) \<Rightarrow> Inr element
         | Inr None \<Rightarrow>
             (case (case String_match text inline_re of
                      None \<Rightarrow> Inr None
                    | Some (m0, m1) \<Rightarrow> try_chart P text m0 m0) of
                Inl e \<Rightarrow> Inl e
              | Inr (Some element) \<Rightarrow> Inr element
              | Inr None \<Rightarrow> Inr (PlainText text)))
      of
        Inl e \<Rightarrow> Inr (PlainText text)
      | Inr result \<Rightarrow> Inr result)"

subsection \<open>The chart renderer: \<^verbatim>\<open>StockChart\<close>\<close>

text \<open>
  The element \<^verbatim>\<open>StockChart\<close> returns, without its fixed markup: the no-data box with
  the ticker, or the chart with the values its header, line chart and stats panel show.
  \<open>positive\<close> selects the green colour and the up arrow; \<open>change_text\<close> stands
  before and \<open>percent_text\<close> inside \<^verbatim>\<open>(...%)\<close>.
\<close>

record chart_view =
  header_ticker :: jsval
  header_period :: jsval
  header_company :: jsval
  price_text :: jsstring
  positive :: bool
  change_text :: jsstring
  percent_text :: jsstring
  chart_data :: jsval
  start_text :: jsstring
  current_text :: jsstring
  points :: jsval

datatype view = NoData jsval | Chart chart_view

text \<open>What the header shows of the change: the direction, the change and the percentage.\<close>

fun change_shown :: "error + view \<Rightarrow> (bool \<times> jsstring \<times> jsstring) option" where
  "change_shown (Inr (Chart v)) = Some (positive v, change_text v, percent_text v)"
| "change_shown r = None"

text \<open>\<^verbatim>\<open>data[0]?.price || 0\<close>.\<close>

definition firstPrice :: "jsval \<Rightarrow> jsval" where
  "firstPrice d =
     js_or (if nullish (js_index d 0) then Undefined else js_prop (js_index d 0) (js ''price''))
           (Num js_zero)"

definition StockChart :: "platform \<Rightarrow> props \<Rightarrow> error + view" where
  "StockChart P p =
     (if \<not> truthy (data p) \<or> strict_eq_num (js_prop (data p) (js ''length'')) js_zero
      then Inr (NoData (ticker p))
      else
        case ToNumber P (current_price p) of
          Inl e \<Rightarrow> Inl e
        | Inr cp \<Rightarrow>
        case ToNumber P (firstPrice (data p)) of
          Inl e \<Rightarrow> Inl e
        | Inr fp \<Rightarrow>
        let priceChange = js_sub cp fp;
            priceChangePercent = toFixed P (js_mul (js_div priceChange fp) (js_of_nat 100)) 2;
            isPositive = js_ge priceChange js_zero
        in
        case toFixed_call P (current_price p) 2 of
          Inl e \<Rightarrow> Inl e
        | Inr price \<Rightarrow>
        case toFixed_call P (firstPrice (data p)) 2 of
          Inl e \<Rightarrow> Inl e
        | Inr start \<Rightarrow>
          Inr (Chart
            \<lparr>header_ticker = ticker p,
             header_period = period p,
             header_company = company_name p,
             price_text = price,
             positive = isPositive,
             change_text = (if isPositive then js ''+'' else []) @ toFixed P priceChange 2,
             percent_text = priceChangePercent,
             chart_data = data p,
             start_text = start,
             current_text = price,
             points = js_prop (data p) (js ''length'')\<rparr>))"

subsection \<open>The derived values, as the specification words them\<close>

text \<open>
  The specification takes \<open>firstPrice = data[0].price\<close> as it stands, and from it
  \<open>priceChange = current_price - firstPrice\<close>, the direction \<open>priceChange >= 0\<close> and
  \<open>priceChangePercent = (priceChange / firstPrice) * 100\<close> with two decimals.
  \<open>stated_change\<close> is what the header would show of them; it is \<open>None\<close> where an
  operation throws.
\<close>

definition stated_change :: "platform \<Rightarrow> props \<Rightarrow> (bool \<times> jsstring \<times> jsstring) option" where
  "stated_change P p =
     (if nullish (js_index (data p) 0) then None
      else
        case ToNumber P (current_price p) of
          Inl e \<Rightarrow> None
        | Inr cp \<Rightarrow>
        case ToNumber P (js_prop (js_index (data p) 0) (js ''price'')) of
          Inl e \<Rightarrow> None
        | Inr fp \<Rightarrow>
          Some (js_ge (js_sub cp fp) js_zero,
                (if js_ge (js_sub cp fp) js_zero then js ''+'' else []) @ toFixed P (js_sub cp fp) 2,
                toFixed P (js_mul (js_div (js_sub cp fp) fp) (js_of_nat 100)) 2))"

subsection \<open>The search order, as the specification words it\<close>

text \<open>
  The specification describes the extractor as \<open>extract(text) -> (payload | absent,
  strippedText)\<close>: the fenced form is attempted first, and an attempt fails when there
  is no match, when the fragment does not parse, or when the parsed value does not pass
  the acceptance test; only then is the inline form attempted; the first accepted
  fragment is removed from the text, which is trimmed.
\<close>

datatype extraction = Found props jsstring | NotFound jsstring

definition accepted_payload :: "platform \<Rightarrow> jsstring \<Rightarrow> jsval option" where
  "accepted_payload P source =
     (case JSON_parse P source of
        Inl e \<Rightarrow> None
      | Inr v \<Rightarrow> if acceptance_test v then Some v else None)"

definition fenced_attempt :: "platform \<Rightarrow> jsstring \<Rightarrow> (jsval \<times> jsstring) option" where
  "fenced_attempt P text =
     (case String_match text fenced_re of
        None \<Rightarrow> None
      | Some (m0, m1) \<Rightarrow> map_option (\<lambda>v. (v, m0)) (accepted_payload P m1))"

definition inline_attempt :: "platform \<Rightarrow> jsstring \<Rightarrow> (jsval \<times> jsstring) option" where
  "inline_attempt P text =
     (case String_match text inline_re of
        None \<Rightarrow> None
      | Some (m0, m1) \<Rightarrow> map_option (\<lambda>v. (v, m0)) (accepted_payload P m0))"

definition found :: "jsstring \<Rightarrow> jsval \<times> jsstring \<Rightarrow> extraction" where
  "found text c = Found (chart_props (fst c)) (trim (replace_first text (snd c) []))"

definition extract_payload :: "platform \<Rightarrow> jsstring \<Rightarrow> extraction" where
  "extract_payload P text =
     (case fenced_attempt P text of
        Some c \<Rightarrow> found text c
      | None \<Rightarrow>
          (case inline_attempt P text of
             Some c \<Rightarrow> found text c
           | None \<Rightarrow> NotFound text))"

text \<open>
  A parsed fragment with the right discriminator whose \<^verbatim>\<open>ticker\<close> is the empty string, or
  whose \<^verbatim>\<open>data\<close> is \<^verbatim>\<open>null\<close>, \<^verbatim>\<open>0\<close> or \<^verbatim>\<open>false\<close>: the field is present and
  falsy.
\<close>

fun falsy_field :: "jsval \<Rightarrow> bool" where
  "falsy_field (Obj kvs) =
     (map_of kvs (js ''type'') = Some (Str (js ''stock_chart''))
      \<and> (map_of kvs (js ''ticker'') = Some (Str [])
           \<or> map_of kvs (js ''data'') = Some Null
           \<or> map_of kvs (js ''data'') = Some (Num js_zero)
           \<or> map_of kvs (js ''data'') = Some (Bool False)))"
| "falsy_field v = False"

fun rendered_of :: "extraction \<Rightarrow> rendered" where
  "rendered_of (Found pr t) = ChartBlock t pr"
| "rendered_of (NotFound t) = PlainText t"

subsection \<open>Example messages and payloads\<close>

text \<open>
  The payload of the specification's concrete scenario, as JSON text and as the value
  \<^verbatim>\<open>JSON.parse\<close> makes of it; a payload with only the three tested fields; one
  without \<^verbatim>\<open>current_price\<close>; one whose ticker is the empty string.
\<close>

definition aapl_json :: jsstring where
  \<open>aapl_json =
     js ''{"type":"stock_chart","ticker":"AAPL","company_name":"Apple Inc.","period":"1mo",''
     @ js ''"data":[{"date":"2024-01-01","price":150.25,"volume":1000000},''
     @ js ''{"date":"2024-01-31","price":155.50,"volume":900000}],"current_price":155.50}''\<close>

definition aapl_data :: jsval where
  "aapl_data =
     Arr [Obj [(js ''date'', Str (js ''2024-01-01'')), (js ''price'', Num (js_decimal 15025 2)),
               (js ''volume'', Num (js_decimal 1000000 0))],
          Obj [(js ''date'', Str (js ''2024-01-31'')), (js ''price'', Num (js_decimal 15550 2)),
               (js ''volume'', Num (js_decimal 900000 0))]]"

definition aapl_payload :: jsval where
  "aapl_payload =
     Obj [(js ''type'', Str (js ''stock_chart'')), (js ''ticker'', Str (js ''AAPL'')),
          (js ''company_name'', Str (js ''Apple Inc.'')), (js ''period'', Str (js ''1mo'')),
          (js ''data'', aapl_data), (js ''current_price'', Num (js_decimal 15550 2))]"

definition bare_json :: jsstring where
  \<open>bare_json = js ''{"type":"stock_chart","ticker":"MSFT","data":[]}''\<close>

definition bare_payload :: jsval where
  "bare_payload =
     Obj [(js ''type'', Str (js ''stock_chart'')), (js ''ticker'', Str (js ''MSFT'')),
          (js ''data'', Arr [])]"

definition unpriced_json :: jsstring where
  \<open>unpriced_json =
     js ''{"type":"stock_chart","ticker":"AAPL","data":[{"date":"2024-01-01","price":150.25}]}''\<close>

definition unpriced_payload :: jsval where
  "unpriced_payload =
     Obj [(js ''type'', Str (js ''stock_chart'')), (js ''ticker'', Str (js ''AAPL'')),
          (js ''data'', Arr [Obj [(js ''date'', Str (js ''2024-01-01'')),
                                  (js ''price'', Num (js_decimal 15025 2))]])]"

definition unnamed_json :: jsstring where
  \<open>unnamed_json = js ''{"type":"stock_chart","ticker":"","data":[]}''\<close>

definition unnamed_payload :: jsval where
  "unnamed_payload =
     Obj [(js ''type'', Str (js ''stock_chart'')), (js ''ticker'', Str []), (js ''data'', Arr [])]"

text \<open>
  A platform for the examples.  Its \<open>JSON_parse\<close> agrees with \<^verbatim>\<open>JSON.parse\<close> on the
  four texts above and, like it, throws a SyntaxError on the truncated text of
  \<open>truncated_message\<close>; the examples call it on nothing else, and they never reach the
  other two built-ins.
\<close>

definition example_platform :: platform where
  "example_platform =
     \<lparr>JSON_parse = (\<lambda>source.
        case map_of [(aapl_json, aapl_payload), (bare_json, bare_payload),
                     (unpriced_json, unpriced_payload), (unnamed_json, unnamed_payload)] source of
          Some v \<Rightarrow> Inr v
        | None \<Rightarrow> Inl SyntaxError),
      ToNumber_other = (\<lambda>v. None),
      Number_toString = (\<lambda>x. [])\<rparr>"

text \<open>
  A source in the fenced form, as a code block labelled \<^verbatim>\<open>json\<close>: the opening
  fence, a newline, the source, a newline and the closing fence.  Then the messages.
\<close>

definition fence :: "jsstring \<Rightarrow> jsstring" where
  "fence source = js ''```json'' @ [0xA] @ source @ [0xA] @ js ''```''"

definition chart_message :: jsstring where
  "chart_message = [0xA] @ js ''Here is the chart:'' @ [0xA] @ fence aapl_json @ [0xA]"

definition shadowed_message :: jsstring where
  "shadowed_message = fence unnamed_json @ [0xA] @ fence aapl_json"

definition two_chart_message :: jsstring where
  "two_chart_message = fence aapl_json @ [0xA] @ fence bare_json"

definition truncated_message :: jsstring where
  \<open>truncated_message = fence (js ''{"type":"stock_chart","ticker":'')\<close>

definition inline_message :: jsstring where
  "inline_message = js ''Chart: '' @ bare_json"

definition unpriced_message :: jsstring where
  "unpriced_message = fence unpriced_json"

definition unnamed_message :: jsstring where
  "unnamed_message = fence unnamed_json"

text \<open>Props as a typed caller would pass them, with one data point.\<close>

definition one_point :: "jsval \<Rightarrow> jsval \<Rightarrow> props" where
  "one_point point cp =
     \<lparr>ticker = Str (js ''AAPL''), company_name = Str (js ''Apple Inc.''),
      period = Str (js ''1mo''), data = Arr [point], current_price = cp\<rparr>"

section \<open>Lemmas on the JavaScript fragment\<close>

subsection \<open>Evaluating numbers\<close>

text \<open>
  The recursive equations of \<open>bit_length\<close>, \<open>odd_part\<close> and \<open>digits\<close> as
  conditional rules, which rewrite a call only once its argument is known.
\<close>

lemma bit_length_0: "bit_length 0 = 0"
  by (simp add: bit_length.simps)

lemma bit_length_pos: "n \<noteq> 0 \<Longrightarrow> bit_length n = Suc (bit_length (n div 2))"
  by (subst bit_length.simps) simp

lemma odd_part_0: "odd_part 0 e = (0, 0)"
  by (simp add: odd_part.simps)

lemma odd_part_even: "m \<noteq> 0 \<Longrightarrow> even m \<Longrightarrow> odd_part m e = odd_part (m div 2) (e + 1)"
  by (subst odd_part.simps) simp

lemma odd_part_odd: "odd m \<Longrightarrow> odd_part m e = (m, e)"
  by (subst odd_part.simps) auto

lemma digits_small: "n < 10 \<Longrightarrow> digits n = [of_nat (48 + n)]"
  by (subst digits.simps) simp

lemma digits_large: "\<not> n < 10 \<Longrightarrow> digits n = digits (n div 10) @ [of_nat (48 + n mod 10)]"
  by (subst digits.simps) simp

lemmas num_eval = js_decimal_def js_of_nat_def js_zero_def js_sub_def round_ratio_def finite_num_def
  binary_exponent_def nearest_def pack_def round_at_def round_sum_def
  signed_def Let_def bit_length_0 bit_length_pos odd_part_0 odd_part_even odd_part_odd
  digits_small digits_large fraction_digits_def

lemma js_of_nat_0: "js_of_nat 0 = js_zero"
  by (simp add: num_eval)

lemma odd_part_pos: "0 < m \<Longrightarrow> 0 < fst (odd_part m e)"
proof (induction m e rule: odd_part.induct)
  case (1 m e)
  show ?case
  proof (cases "even m")
    case True
    with "1.prems" have "0 < m div 2" by (cases m) auto
    with "1.IH" "1.prems" True have "0 < fst (odd_part (m div 2) (e + 1))" by simp
    with "1.prems" True show ?thesis by (simp add: odd_part_even)
  next
    case False
    then show ?thesis using "1.prems" by (simp add: odd_part_odd)
  qed
qed

lemma js_of_nat_eq_zero: "js_num_eq (js_of_nat n) js_zero \<longleftrightarrow> n = 0"
proof (cases "n = 0")
  case True
  then show ?thesis by (simp add: js_of_nat_0) (simp add: js_zero_def)
next
  case False
  then have "0 < fst (odd_part n 0)" by (simp add: odd_part_pos)
  with False show ?thesis
    by (cases "odd_part n 0") (simp add: js_of_nat_def finite_num_def js_zero_def)
qed

lemma ToNumber_error: "ToNumber P v = Inl x \<Longrightarrow> x = TypeError"
  by (cases v) (auto split: option.splits)

subsection \<open>Trimming\<close>




subsection \<open>The backtracking matcher\<close>

text \<open>
  A successful match ends inside the text, and the matched substring alone makes the
  matcher succeed wherever it stands and whatever follows it.  So the matcher fails at an
  index exactly when no substring starting there is in the language of the expression,
  and the fragment that \<open>re_exec\<close> returns occurs nowhere further left: removing its
  first occurrence removes it where it was matched.
\<close>

lemma re_match_Lit_append:
  "re_match (Lit l # r) (l @ w) n g = re_match r w (n + length l) g"
  by simp

lemma take_Cons_diff:
  "Suc n \<le> e \<Longrightarrow> take (e - n) (x # xs) = x # take (e - Suc n) xs"
proof -
  assume "Suc n \<le> e"
  then have "e - n = Suc (e - Suc n)" by simp
  then show ?thesis by simp
qed

lemma star_rest:
  "re_match r s n g \<noteq> None \<Longrightarrow> re_match (Star c # r) s n g \<noteq> None"
  by (cases s) (auto split: option.splits)

lemma star_step:
  "in_class c x \<Longrightarrow> re_match (Star c # r) xs (Suc n) g \<noteq> None \<Longrightarrow>
     re_match (Star c # r) (x # xs) n g \<noteq> None"
  by (auto split: option.splits)

lemma lazy_rest:
  "re_match r s n g \<noteq> None \<Longrightarrow> re_match (LazyStar c # r) s n g \<noteq> None"
  by (cases s) (auto split: option.splits)

lemma lazy_step:
  "in_class c x \<Longrightarrow> re_match (LazyStar c # r) xs (Suc n) g \<noteq> None \<Longrightarrow>
     re_match (LazyStar c # r) (x # xs) n g \<noteq> None"
  by (auto split: option.splits)

lemma opt_rest:
  "re_match r s n g \<noteq> None \<Longrightarrow> re_match (Opt c # r) s n g \<noteq> None"
  by (cases s) (auto split: option.splits)

lemma opt_step:
  "in_class c x \<Longrightarrow> re_match r xs (Suc n) g \<noteq> None \<Longrightarrow>
     re_match (Opt c # r) (x # xs) n g \<noteq> None"
  by (auto split: option.splits)

lemma re_match_sound:
  "re_match r s n g = Some (e, a, b) \<Longrightarrow>
     n \<le> e \<and> e \<le> n + length s \<and> (\<forall>t n' g'. re_match r (take (e - n) s @ t) n' g' \<noteq> None)"
proof (induction r s n g arbitrary: e a b rule: re_match.induct)
  case (1 s n g)
  then show ?case by simp
next
  case (2 l r s n g)
  from "2.prems" have pre: "prefix l s"
    and rec: "re_match r (drop (length l) s) (n + length l) g = Some (e, a, b)"
    by (auto split: if_splits)
  from pre obtain v where s: "s = l @ v" by (auto simp: prefix_def)
  from "2.IH"[OF pre rec] s have lo: "n + length l \<le> e" and hi: "e \<le> n + length l + length v"
    and ex: "\<And>t n' g'. re_match r (take (e - (n + length l)) v @ t) n' g' \<noteq> None"
    by auto
  have tk: "take (e - n) s = l @ take (e - (n + length l)) v" using lo s by simp
  show ?case
  proof (intro conjI allI)
    show "n \<le> e" using lo by simp
    show "e \<le> n + length s" using hi s by simp
    fix t n' g'
    have "re_match (Lit l # r) (take (e - n) s @ t) n' g'
          = re_match r (take (e - (n + length l)) v @ t) (n' + length l) g'"
      unfolding tk append_assoc by (rule re_match_Lit_append)
    then show "re_match (Lit l # r) (take (e - n) s @ t) n' g' \<noteq> None"
      using ex by simp
  qed
next
  case (3 c r n g)
  from "3.prems" have rec: "re_match r [] n g = Some (e, a, b)" by simp
  from "3.IH"[OF rec] have en: "e = n" and ex: "\<And>t n' g'. re_match r t n' g' \<noteq> None"
    by auto
  show ?case
  proof (intro conjI allI)
    show "n \<le> e" "e \<le> n + length ([]::jsstring)" using en by simp_all
    fix t n' g'
    show "re_match (Star c # r) (take (e - n) [] @ t) n' g' \<noteq> None"
      using ex[of t n' g'] by (simp add: star_rest)
  qed
next
  case (4 c r x xs n g)
  show ?case
  proof (cases "in_class c x \<and> re_match (Star c # r) xs (Suc n) g \<noteq> None")
    case True
    with "4.prems" have rec: "re_match (Star c # r) xs (Suc n) g = Some (e, a, b)"
      by (auto split: option.splits)
    from True have cx: "in_class c x" by simp
    from "4.IH"(1)[OF cx rec] have lo: "Suc n \<le> e" and hi: "e \<le> Suc n + length xs"
      and ex: "\<And>t n' g'. re_match (Star c # r) (take (e - Suc n) xs @ t) n' g' \<noteq> None"
      by auto
    have tk: "take (e - n) (x # xs) = x # take (e - Suc n) xs"
      using lo by (rule take_Cons_diff)
    show ?thesis
    proof (intro conjI allI)
      show "n \<le> e" using lo by simp
      show "e \<le> n + length (x # xs)" using hi by simp
      fix t n' g'
      show "re_match (Star c # r) (take (e - n) (x # xs) @ t) n' g' \<noteq> None"
        unfolding tk append_Cons by (rule star_step[OF cx ex])
    qed
  next
    case False
    with "4.prems" have rec: "re_match r (x # xs) n g = Some (e, a, b)"
      by (auto split: option.splits if_splits)
    have "n \<le> e \<and> e \<le> n + length (x # xs) \<and>
       (\<forall>t n' g'. re_match r (take (e - n) (x # xs) @ t) n' g' \<noteq> None)"
    proof (cases "in_class c x")
      case True
      with False have "re_match (Star c # r) xs (Suc n) g = None" by blast
      from "4.IH"(2)[OF True this rec] show ?thesis .
    next
      case False
      from "4.IH"(3)[OF False rec] show ?thesis .
    qed
    then have lo: "n \<le> e" and hi: "e \<le> n + length (x # xs)"
      and ex: "\<And>t n' g'. re_match r (take (e - n) (x # xs) @ t) n' g' \<noteq> None"
      by auto
    show ?thesis
    proof (intro conjI allI)
      show "n \<le> e" by (rule lo)
      show "e \<le> n + length (x # xs)" by (rule hi)
      fix t n' g'
      show "re_match (Star c # r) (take (e - n) (x # xs) @ t) n' g' \<noteq> None"
        using ex[of t n' g'] by (rule star_rest)
    qed
  qed
next
  case (5 c r n g)
  from "5.prems" have rec: "re_match r [] n g = Some (e, a, b)" by simp
  from "5.IH"[OF rec] have en: "e = n" and ex: "\<And>t n' g'. re_match r t n' g' \<noteq> None"
    by auto
  show ?case
  proof (intro conjI allI)
    show "n \<le> e" "e \<le> n + length ([]::jsstring)" using en by simp_all
    fix t n' g'
    show "re_match (LazyStar c # r) (take (e - n) [] @ t) n' g' \<noteq> None"
      using ex[of t n' g'] by (simp add: lazy_rest)
  qed
next
  case (6 c r x xs n g)
  show ?case
  proof (cases "re_match r (x # xs) n g")
    case (Some m)
    with "6.prems" have rec: "re_match r (x # xs) n g = Some (e, a, b)" by simp
    from "6.IH"(1)[OF rec] have lo: "n \<le> e" and hi: "e \<le> n + length (x # xs)"
      and ex: "\<And>t n' g'. re_match r (take (e - n) (x # xs) @ t) n' g' \<noteq> None"
      by auto
    show ?thesis
    proof (intro conjI allI)
      show "n \<le> e" by (rule lo)
      show "e \<le> n + length (x # xs)" by (rule hi)
      fix t n' g'
      show "re_match (LazyStar c # r) (take (e - n) (x # xs) @ t) n' g' \<noteq> None"
        using ex[of t n' g'] by (rule lazy_rest)
    qed
  next
    case None
    with "6.prems" have cx: "in_class c x"
      and rec: "re_match (LazyStar c # r) xs (Suc n) g = Some (e, a, b)"
      by (auto split: if_splits)
    from "6.IH"(2)[OF None cx rec] have lo: "Suc n \<le> e" and hi: "e \<le> Suc n + length xs"
      and ex: "\<And>t n' g'. re_match (LazyStar c # r) (take (e - Suc n) xs @ t) n' g' \<noteq> None"
      by auto
    have tk: "take (e - n) (x # xs) = x # take (e - Suc n) xs"
      using lo by (rule take_Cons_diff)
    show ?thesis
    proof (intro conjI allI)
      show "n \<le> e" using lo by simp
      show "e \<le> n + length (x # xs)" using hi by simp
      fix t n' g'
      show "re_match (LazyStar c # r) (take (e - n) (x # xs) @ t) n' g' \<noteq> None"
        unfolding tk append_Cons by (rule lazy_step[OF cx ex])
    qed
  qed
next
  case (7 c r n g)
  from "7.prems" have rec: "re_match r [] n g = Some (e, a, b)" by simp
  from "7.IH"[OF rec] have en: "e = n" and ex: "\<And>t n' g'. re_match r t n' g' \<noteq> None"
    by auto
  show ?case
  proof (intro conjI allI)
    show "n \<le> e" "e \<le> n + length ([]::jsstring)" using en by simp_all
    fix t n' g'
    show "re_match (Opt c # r) (take (e - n) [] @ t) n' g' \<noteq> None"
      using ex[of t n' g'] by (simp add: opt_rest)
  qed
next
  case (8 c r x xs n g)
  show ?case
  proof (cases "in_class c x \<and> re_match r xs (Suc n) g \<noteq> None")
    case True
    with "8.prems" have rec: "re_match r xs (Suc n) g = Some (e, a, b)"
      by (auto split: option.splits)
    from True have cx: "in_class c x" by simp
    from "8.IH"(1)[OF cx rec] have lo: "Suc n \<le> e" and hi: "e \<le> Suc n + length xs"
      and ex: "\<And>t n' g'. re_match r (take (e - Suc n) xs @ t) n' g' \<noteq> None"
      by auto
    have tk: "take (e - n) (x # xs) = x # take (e - Suc n) xs"
      using lo by (rule take_Cons_diff)
    show ?thesis
    proof (intro conjI allI)
      show "n \<le> e" using lo by simp
      show "e \<le> n + length (x # xs)" using hi by simp
      fix t n' g'
      show "re_match (Opt c # r) (take (e - n) (x # xs) @ t) n' g' \<noteq> None"
        unfolding tk append_Cons by (rule opt_step[OF cx ex])
    qed
  next
    case False
    with "8.prems" have rec: "re_match r (x # xs) n g = Some (e, a, b)"
      by (auto split: option.splits if_splits)
    have "n \<le> e \<and> e \<le> n + length (x # xs) \<and>
       (\<forall>t n' g'. re_match r (take (e - n) (x # xs) @ t) n' g' \<noteq> None)"
    proof (cases "in_class c x")
      case True
      with False have "re_match r xs (Suc n) g = None" by blast
      from "8.IH"(2)[OF True this rec] show ?thesis .
    next
      case False
      from "8.IH"(3)[OF False rec] show ?thesis .
    qed
    then have lo: "n \<le> e" and hi: "e \<le> n + length (x # xs)"
      and ex: "\<And>t n' g'. re_match r (take (e - n) (x # xs) @ t) n' g' \<noteq> None"
      by auto
    show ?thesis
    proof (intro conjI allI)
      show "n \<le> e" by (rule lo)
      show "e \<le> n + length (x # xs)" by (rule hi)
      fix t n' g'
      show "re_match (Opt c # r) (take (e - n) (x # xs) @ t) n' g' \<noteq> None"
        using ex[of t n' g'] by (rule opt_rest)
    qed
  qed
next
  case (9 r s n g)
  then show ?case by simp
next
  case (10 r s n g)
  then show ?case by simp
qed

lemma re_match_None_indep:
  assumes "re_match r s n g = None"
  shows "re_match r s n' g' = None"
proof (rule ccontr)
  assume "re_match r s n' g' \<noteq> None"
  then obtain e a b where "re_match r s n' g' = Some (e, a, b)" by auto
  from re_match_sound[OF this] have "re_match r (take (e - n') s @ drop (e - n') s) n g \<noteq> None"
    by blast
  with assms show False by simp
qed

lemma re_exec_sound:
  "re_exec r s i = Some (j, e, a, b) \<Longrightarrow>
     i \<le> j \<and> j \<le> i + length s \<and> re_match r (drop (j - i) s) j (j, j) = Some (e, a, b)
     \<and> (\<forall>k<j - i. re_match r (drop k s) 0 (0, 0) = None)"
proof (induction s arbitrary: i)
  case Nil
  then show ?case by (auto split: option.splits)
next
  case (Cons x xs)
  show ?case
  proof (cases "re_match r (x # xs) i (i, i)")
    case (Some m)
    with Cons.prems show ?thesis by auto
  next
    case None
    with Cons.prems have rec: "re_exec r xs (Suc i) = Some (j, e, a, b)" by simp
    from Cons.IH[OF rec] have lo: "Suc i \<le> j" and hi: "j \<le> Suc i + length xs"
      and m: "re_match r (drop (j - Suc i) xs) j (j, j) = Some (e, a, b)"
      and before: "\<And>k. k < j - Suc i \<Longrightarrow> re_match r (drop k xs) 0 (0, 0) = None"
      by auto
    from lo have ji: "j - i = Suc (j - Suc i)" by simp
    have "re_match r (drop k (x # xs)) 0 (0, 0) = None" if "k < j - i" for k
    proof (cases k)
      case 0
      then show ?thesis using re_match_None_indep[OF None] by simp
    next
      case (Suc k')
      with that ji have "k' < j - Suc i" by simp
      from before[OF this] Suc show ?thesis by simp
    qed
    with lo hi m ji show ?thesis by simp
  qed
qed

lemma replace_first_prefix:
  "replace_first (pat @ post) pat rep = rep @ post"
proof (cases "pat @ post")
  case Nil
  then show ?thesis by simp
next
  case (Cons a l)
  have p: "prefix pat (a # l)" unfolding Cons[symmetric] by simp
  have d: "drop (length pat) (a # l) = post" unfolding Cons[symmetric] by simp
  show ?thesis unfolding Cons using p d by simp
qed

lemma replace_first_at:
  "(\<forall>k<length pre. \<not> prefix pat (drop k (pre @ pat @ post))) \<Longrightarrow>
     replace_first (pre @ pat @ post) pat rep = pre @ rep @ post"
proof (induction pre)
  case Nil
  show ?case by (simp add: replace_first_prefix)
next
  case (Cons c pre)
  from Cons.prems have here: "\<not> prefix pat (c # pre @ pat @ post)" by force
  from Cons.prems have "\<forall>k<length pre. \<not> prefix pat (drop k (pre @ pat @ post))" by force
  from Cons.IH[OF this] here show ?case by simp
qed

lemma re_exec_fragment:
  assumes "re_exec r text 0 = Some (j, e, a, b)"
  shows "j \<le> e" and "e \<le> length text"
    and "text = take j text @ slice text j e @ drop e text"
    and "replace_first text (slice text j e) [] = take j text @ drop e text"
proof -
  from re_exec_sound[OF assms] have jlen: "j \<le> length text"
    and m: "re_match r (drop j text) j (j, j) = Some (e, a, b)"
    and before: "\<And>k. k < j \<Longrightarrow> re_match r (drop k text) 0 (0, 0) = None"
    by auto
  from re_match_sound[OF m] jlen have lo: "j \<le> e" and hi: "e \<le> length text"
    and ex: "\<And>t. re_match r (take (e - j) (drop j text) @ t) 0 (0, 0) \<noteq> None"
    by auto
  show "j \<le> e" by (rule lo)
  show "e \<le> length text" by (rule hi)
  have "drop (e - j) (drop j text) = drop e text" using lo by simp
  then have "take (e - j) (drop j text) @ drop e text = drop j text"
    by (metis append_take_drop_id)
  then have split: "drop j text = slice text j e @ drop e text"
    unfolding slice_def by simp
  show dec: "text = take j text @ slice text j e @ drop e text"
    using split by (metis append_take_drop_id)
  have "\<not> prefix (slice text j e) (drop k text)" if "k < j" for k
  proof
    assume "prefix (slice text j e) (drop k text)"
    then obtain t where "drop k text = slice text j e @ t" by (auto simp: prefix_def)
    with ex[of t] before[OF that] show False by (simp add: slice_def)
  qed
  then have "\<forall>k<length (take j text). \<not> prefix (slice text j e)
      (drop k (take j text @ slice text j e @ drop e text))"
    using dec by simp
  from replace_first_at[OF this, of "[]"] dec
  show "replace_first text (slice text j e) [] = take j text @ drop e text" by simp
qed

lemma String_match_exec:
  "re_exec r text 0 = Some (i, e, a, b) \<Longrightarrow> String_match text r = Some (slice text i e, slice text a b)"
  by (simp add: String_match_def)













section \<open>The chart renderer\<close>

text \<open>Property names differ; a non-empty array is truthy and its length is not zero.\<close>

lemma price_key [simp]: "js ''price'' \<noteq> js ''date''" "js ''price'' \<noteq> js ''volume''"
  by (simp_all add: js_def)

lemma date_key [simp]: "js ''date'' \<noteq> js ''price''" "js ''volume'' \<noteq> js ''price''"
  by (simp_all add: js_def)

lemma key_neq [simp]:
  "js ''type'' \<noteq> js ''length''" "js ''data'' \<noteq> js ''length''" "js ''ticker'' \<noteq> js ''length''"
  "js ''type'' \<noteq> js ''current_price''" "js ''data'' \<noteq> js ''current_price''"
  "js ''ticker'' \<noteq> js ''current_price''"
  by (simp_all add: js_def)

lemma nonempty_array_has_data:
  "truthy (Arr (d # ds)) \<and> \<not> strict_eq_num (js_prop (Arr (d # ds)) (js ''length'')) js_zero"
  by (simp add: js_of_nat_eq_zero)

text \<open>
  The element rendered for non-empty array data, a Number as current price and a first
  price that is a Number.
\<close>

lemma StockChart_numbers:
  assumes "data p = Arr (d # ds)" and "current_price p = Num cp" and "firstPrice (data p) = Num fp"
  shows "StockChart P p =
     Inr (Chart
       \<lparr>header_ticker = ticker p, header_period = period p, header_company = company_name p,
        price_text = toFixed P cp 2,
        positive = js_ge (js_sub cp fp) js_zero,
        change_text = (if js_ge (js_sub cp fp) js_zero then js ''+'' else []) @ toFixed P (js_sub cp fp) 2,
        percent_text = toFixed P (js_mul (js_div (js_sub cp fp) fp) (js_of_nat 100)) 2,
        chart_data = data p,
        start_text = toFixed P fp 2,
        current_text = toFixed P cp 2,
        points = Num (js_of_nat (length (d # ds)))\<rparr>)"
proof -
  have "truthy (data p) \<and> \<not> strict_eq_num (js_prop (data p) (js ''length'')) js_zero"
    using assms(1) nonempty_array_has_data by simp
  moreover have "firstPrice (Arr (d # ds)) = Num fp" using assms(1,3) by simp
  ultimately show ?thesis
    using assms by (simp add: StockChart_def Let_def)
qed

lemma StockChart_shown:
  assumes "data p = Arr (d # ds)" and "current_price p = Num cp" and "firstPrice (data p) = Num fp"
  shows "change_shown (StockChart P p) =
     Some (js_ge (js_sub cp fp) js_zero,
           (if js_ge (js_sub cp fp) js_zero then js ''+'' else []) @ toFixed P (js_sub cp fp) 2,
           toFixed P (js_mul (js_div (js_sub cp fp) fp) (js_of_nat 100)) 2)"
  by (simp add: StockChart_numbers[OF assms])

lemma firstPrice_array:
  "firstPrice (Arr (d # ds)) =
     (if nullish d then Num js_zero
      else if truthy (js_prop d (js ''price'')) then js_prop d (js ''price'') else Num js_zero)"
  by (simp add: firstPrice_def js_or_def)

lemma StockChart_current_price_missing:
  assumes "truthy (data p)" and "\<not> strict_eq_num (js_prop (data p) (js ''length'')) js_zero"
    and "current_price p = Undefined"
  shows "StockChart P p = Inl TypeError"
  using assms by (auto simp: StockChart_def Let_def split: sum.splits dest: ToNumber_error)

text \<open>The examples: their props and their arithmetic.\<close>

lemma bare_props:
  "chart_props bare_payload =
     \<lparr>ticker = Str (js ''MSFT''), company_name = Str (js ''MSFT''), period = Str (js ''1mo''),
      data = Arr [], current_price = Undefined\<rparr>"
  by (simp add: bare_payload_def chart_props_def js_or_def js_def)

lemma ten: "js_decimal 10 0 = Finite False 5 1"
  by (simp add: num_eval)

lemma ten_minus_zero: "js_sub (js_decimal 10 0) js_zero = Finite False 5 1"
  by (simp add: num_eval)

lemma ten_by_zero: "js_mul (js_div (Finite False 5 1) js_zero) (js_of_nat 100) = Infinity False"
  by (simp add: num_eval)

lemma aapl_props:
  "data (chart_props aapl_payload) = aapl_data"
  "current_price (chart_props aapl_payload) = Num (js_decimal 15550 2)"
  by (simp_all add: aapl_payload_def chart_props_def js_def)

lemma aapl_first: "firstPrice aapl_data = Num (js_decimal 15025 2)"
proof -
  have "js_decimal 15025 2 = Finite False 601 (- 2)" by (simp add: num_eval)
  then show ?thesis by (simp add: aapl_data_def firstPrice_def js_or_def)
qed

lemma aapl_change:
  "js_sub (js_decimal 15550 2) (js_decimal 15025 2) = Finite False 21 (- 2)"
  "js_mul (js_div (Finite False 21 (- 2)) (js_decimal 15025 2)) (js_of_nat 100)
     = Finite False 3934092852528303 (- 50)"
  by (simp_all add: num_eval)

lemma aapl_fixed:
  "toFixed P (Finite False 21 (- 2)) 2 = js ''5.25''"
  "toFixed P (Finite False 3934092852528303 (- 50)) 2 = js ''3.49''"
  by (simp_all add: num_eval js_def)

text \<open>
  C6.  For every payload whose data is the empty sequence, \<^verbatim>\<open>StockChart\<close> returns
  the no-data box for the ticker (``No data available for <ticker>'').  The result is the
  same whatever the current price and the platform are, also where a derivation would
  throw: no subtraction, division or \<^verbatim>\<open>toFixed\<close> takes part in it.
\<close>

theorem empty_data_no_derivation:
  "data p = Arr [] \<Longrightarrow> StockChart P p = Inr (NoData (ticker p))"
  by (simp add: StockChart_def js_of_nat_0 js_zero_def)

text \<open>
  The payload with only a type, a ticker and empty data has no current price at all, and
  renders as the no-data box.
\<close>

theorem empty_data_no_derivation_witness:
  "data (chart_props bare_payload) = Arr []
   \<and> current_price (chart_props bare_payload) = Undefined
   \<and> StockChart example_platform (chart_props bare_payload) = Inr (NoData (Str (js ''MSFT'')))"
proof -
  have h: "data (chart_props bare_payload) = Arr []" by (simp add: bare_props)
  from empty_data_no_derivation[OF h, of example_platform] h show ?thesis
    by (simp add: bare_props)
qed

text \<open>
  C1.  The claim asks that a first price of exactly zero never shows \<^verbatim>\<open>Infinity\<close> or
  \<^verbatim>\<open>NaN\<close> as the percentage.  The code has no such guard: with
  \<^verbatim>\<open>data[0].price = 0\<close> and \<^verbatim>\<open>current_price = 10\<close> it computes
  \<^verbatim>\<open>((10 - 0) / 0 * 100).toFixed(2)\<close> and the header shows
  \<^verbatim>\<open>+10.00 (Infinity%)\<close>, on every platform.
\<close>

theorem zero_start_price_shows_Infinity:
  "change_shown (StockChart P (one_point
      (Obj [(js ''date'', Str (js ''2024-01-01'')), (js ''price'', Num js_zero),
            (js ''volume'', Num (js_decimal 1000000 0))])
      (Num (js_decimal 10 0))))
   = Some (True, js ''+10.00'', js ''Infinity'')"
proof -
  let ?p = "one_point
      (Obj [(js ''date'', Str (js ''2024-01-01'')), (js ''price'', Num js_zero),
            (js ''volume'', Num (js_decimal 1000000 0))])
      (Num (js_decimal 10 0))"
  have fp: "firstPrice (data ?p) = Num js_zero"
    by (simp add: one_point_def firstPrice_def js_or_def js_zero_def)
  have "data ?p = Arr [Obj [(js ''date'', Str (js ''2024-01-01'')), (js ''price'', Num js_zero),
            (js ''volume'', Num (js_decimal 1000000 0))]]"
    and "current_price ?p = Num (js_decimal 10 0)"
    by (simp_all add: one_point_def)
  from StockChart_shown[OF this fp, of P] show ?thesis
    by (simp add: ten_minus_zero ten_by_zero) (simp add: num_eval js_def)
qed

text \<open>The same on the platform of the examples.\<close>

theorem zero_start_price_shows_Infinity_witness:
  "change_shown (StockChart example_platform (one_point
      (Obj [(js ''date'', Str (js ''2024-01-01'')), (js ''price'', Num js_zero),
            (js ''volume'', Num (js_decimal 1000000 0))])
      (Num (js_decimal 10 0))))
   = Some (True, js ''+10.00'', js ''Infinity'')"
  by (rule zero_start_price_shows_Infinity)

text \<open>
  C5, as stated, takes the change to be \<^verbatim>\<open>current_price - data[0].price\<close>.  The
  code subtracts \<^verbatim>\<open>data[0]?.price || 0\<close> instead.  For a first point without a
  price and \<^verbatim>\<open>current_price = 10\<close> the header shows \<^verbatim>\<open>+10.00\<close> in the positive
  direction, whereas \<^verbatim>\<open>10 - undefined\<close> is NaN: as stated, the direction would be
  negative and the change would read \<^verbatim>\<open>NaN\<close>.
\<close>

theorem price_change_counterexample:
  "change_shown (StockChart example_platform
      (one_point (Obj [(js ''date'', Str (js ''2024-01-01''))]) (Num (js_decimal 10 0))))
     = Some (True, js ''+10.00'', js ''Infinity'')
   \<and> stated_change example_platform
      (one_point (Obj [(js ''date'', Str (js ''2024-01-01''))]) (Num (js_decimal 10 0)))
     = Some (False, js ''NaN'', js ''NaN'')"
proof -
  let ?p = "one_point (Obj [(js ''date'', Str (js ''2024-01-01''))]) (Num (js_decimal 10 0))"
  have fp: "firstPrice (data ?p) = Num js_zero"
    by (simp add: one_point_def firstPrice_def js_or_def)
  have "data ?p = Arr [Obj [(js ''date'', Str (js ''2024-01-01''))]]"
    and "current_price ?p = Num (js_decimal 10 0)"
    by (simp_all add: one_point_def)
  from StockChart_shown[OF this fp, of example_platform]
  have "change_shown (StockChart example_platform ?p) = Some (True, js ''+10.00'', js ''Infinity'')"
    by (simp add: ten_minus_zero ten_by_zero) (simp add: num_eval js_def)
  moreover have "stated_change example_platform ?p = Some (False, js ''NaN'', js ''NaN'')"
    by (simp add: stated_change_def one_point_def ten js_sub_def)
  ultimately show ?thesis by simp
qed

text \<open>
  C5, amended.  For every payload whose data is a non-empty sequence and whose current
  price is a Number, let \<open>firstPrice\<close> be \<^verbatim>\<open>data[0].price\<close> when that value is truthy
  and \<open>0\<close> when it is missing or falsy (as for a first point that is \<^verbatim>\<open>null\<close>).
  When \<open>firstPrice\<close> is a Number, the renderer shows
  \<open>priceChange = current_price - firstPrice\<close> with two decimals, after a \<^verbatim>\<open>+\<close> exactly
  when the direction is positive, and the direction is positive exactly when
  \<open>priceChange >= 0\<close>.  When moreover \<open>firstPrice\<close> is not zero, it is
  \<^verbatim>\<open>data[0].price\<close> itself and the percentage shown is
  \<open>(priceChange / firstPrice) * 100\<close> with two decimals.
\<close>

theorem price_change_from_first_price:
  assumes "data p = Arr (d # ds)" and "current_price p = Num cp" and "firstPrice (data p) = Num fp"
  shows "firstPrice (data p) =
           (if nullish d then Num js_zero
            else if truthy (js_prop d (js ''price'')) then js_prop d (js ''price'') else Num js_zero)
       \<and> (\<exists>v. StockChart P p = Inr (Chart v)
            \<and> positive v = js_ge (js_sub cp fp) js_zero
            \<and> change_text v = (if positive v then js ''+'' else []) @ toFixed P (js_sub cp fp) 2
            \<and> (truthy (Num fp) \<longrightarrow>
                 js_prop d (js ''price'') = Num fp
                 \<and> percent_text v = toFixed P (js_mul (js_div (js_sub cp fp) fp) (js_of_nat 100)) 2))"
proof -
  have "js_prop d (js ''price'') = Num fp" if "truthy (Num fp)"
    using assms(1,3) that by (auto simp: firstPrice_array js_zero_def split: if_splits)
  then show ?thesis
    using assms(1) StockChart_numbers[OF assms, of P] by (simp add: firstPrice_array)
qed

text \<open>
  The concrete scenario of the specification: from 150.25 to 155.50 the header shows
  \<^verbatim>\<open>+5.25 (3.49%)\<close> in the positive direction.
\<close>

theorem price_change_from_first_price_witness:
  "data (chart_props aapl_payload) = aapl_data
   \<and> firstPrice aapl_data = Num (js_decimal 15025 2)
   \<and> truthy (Num (js_decimal 15025 2))
   \<and> change_shown (StockChart example_platform (chart_props aapl_payload))
       = Some (True, js ''+5.25'', js ''3.49'')"
proof -
  have d: "data (chart_props aapl_payload) = Arr
     [Obj [(js ''date'', Str (js ''2024-01-01'')), (js ''price'', Num (js_decimal 15025 2)),
               (js ''volume'', Num (js_decimal 1000000 0))],
          Obj [(js ''date'', Str (js ''2024-01-31'')), (js ''price'', Num (js_decimal 15550 2)),
               (js ''volume'', Num (js_decimal 900000 0))]]"
    by (simp add: aapl_props aapl_data_def)
  have f: "firstPrice (data (chart_props aapl_payload)) = Num (js_decimal 15025 2)"
    by (simp add: aapl_props aapl_first)
  have t: "truthy (Num (js_decimal 15025 2))"
    by (simp add: num_eval)
  from price_change_from_first_price[OF d aapl_props(2) f, of example_platform] t
  obtain v where "StockChart example_platform (chart_props aapl_payload) = Inr (Chart v)"
    and "positive v = js_ge (Finite False 21 (- 2)) js_zero"
    and "change_text v = (if positive v then js ''+'' else []) @ js ''5.25''"
    and "percent_text v = js ''3.49''"
    by (auto simp: aapl_change aapl_fixed simp del: toFixed.simps)
  with t show ?thesis
    by (simp add: aapl_props aapl_first js_zero_def signed_def js_def)
qed

section \<open>The chart payload extractor\<close>

text \<open>
  Only an object passes the acceptance test.  With the errors of either \<^verbatim>\<open>try\<close> block
  caught, \<open>textRenderer\<close> is the search that the specification describes.
\<close>

lemma accept_is_object: "acceptance_test v \<Longrightarrow> \<exists>kvs. v = Obj kvs"
  by (cases v) (simp_all add: acceptance_test_def strict_eq_str_def)

lemma accept_not_nullish: "acceptance_test v \<Longrightarrow> \<not> nullish v"
  by (auto dest: accept_is_object)

lemma try_chart_accepted:
  "try_chart P text fragment source =
     Inr (map_option (\<lambda>v. ChartBlock (trim (replace_first text fragment [])) (chart_props v))
            (accepted_payload P source))"
  by (auto simp: try_chart_def chart_element_def accepted_payload_def accept_not_nullish
      split: sum.splits)

lemma textRenderer_search:
  "textRenderer P text = Inr (rendered_of (extract_payload P text))"
  by (auto simp: textRenderer_def try_chart_accepted extract_payload_def fenced_attempt_def
      inline_attempt_def found_def split: option.splits)

lemma accepted_payload_Some:
  "accepted_payload P source = Some v \<longleftrightarrow> JSON_parse P source = Inr v \<and> acceptance_test v"
  by (auto simp: accepted_payload_def split: sum.splits)

lemma accepted_payload_None:
  "accepted_payload P source = None \<longleftrightarrow>
     isl (JSON_parse P source) \<or> (\<exists>v. JSON_parse P source = Inr v \<and> \<not> acceptance_test v)"
  by (auto simp: accepted_payload_def split: sum.splits)

lemma textRenderer_nothing_accepted:
  assumes "fenced_attempt P text = None" and "inline_attempt P text = None"
  shows "textRenderer P text = Inr (PlainText text)"
  using assms by (simp add: textRenderer_search extract_payload_def)

lemma attempt_None:
  "String_match text r = None \<or>
     (\<exists>m0 m1. String_match text r = Some (m0, m1) \<and> accepted_payload P (f m0 m1) = None)
   \<Longrightarrow> (case String_match text r of None \<Rightarrow> None
        | Some (m0, m1) \<Rightarrow> map_option (\<lambda>v. (v, m0)) (accepted_payload P (f m0 m1))) = None"
  by auto

lemma textRenderer_fenced:
  assumes "re_exec fenced_re text 0 = Some (i, e, a, b)"
    and "JSON_parse P (slice text a b) = Inr v" and "acceptance_test v"
  shows "textRenderer P text = Inr (ChartBlock (trim (take i text @ drop e text)) (chart_props v))"
proof -
  from assms(2,3) have "accepted_payload P (slice text a b) = Some v"
    by (simp add: accepted_payload_Some)
  with String_match_exec[OF assms(1)]
  have "fenced_attempt P text = Some (v, slice text i e)"
    by (simp add: fenced_attempt_def)
  then have "textRenderer P text =
      Inr (ChartBlock (trim (replace_first text (slice text i e) [])) (chart_props v))"
    by (simp add: textRenderer_search extract_payload_def found_def)
  with re_exec_fragment(4)[OF assms(1)] show ?thesis by simp
qed

lemma textRenderer_Chart:
  assumes "textRenderer P text = Inr (ChartBlock t pr)"
  shows "\<exists>source kvs. JSON_parse P source = Inr (Obj kvs) \<and> acceptance_test (Obj kvs)
           \<and> pr = chart_props (Obj kvs)"
proof -
  from assms have "rendered_of (extract_payload P text) = ChartBlock t pr"
    by (simp add: textRenderer_search)
  then obtain c source where pr: "pr = chart_props (fst c)"
    and acc: "accepted_payload P source = Some (fst c)"
    by (auto simp: extract_payload_def found_def fenced_attempt_def inline_attempt_def
        split: option.splits)
  from acc have "JSON_parse P source = Inr (fst c)" and a: "acceptance_test (fst c)"
    by (simp_all add: accepted_payload_Some)
  moreover from a obtain kvs where "fst c = Obj kvs" by (auto dest: accept_is_object)
  ultimately show ?thesis using pr by auto
qed

lemma map_of_filter_other:
  "k \<noteq> k' \<Longrightarrow> map_of (filter (\<lambda>kv. fst kv \<noteq> k') kvs) k = map_of kvs k"
  by (induction kvs) auto

lemma falsy_field_rejected: "falsy_field v \<Longrightarrow> \<not> acceptance_test v"
  by (cases v) (auto simp: acceptance_test_def js_zero_def)

text \<open>
  Both regular expressions start with a literal character: a text without a backtick has
  no fenced block, and a text without an opening brace has no inline literal.
\<close>

lemma re_match_first_char:
  "re_match (Lit (c # l) # r) s n g \<noteq> None \<Longrightarrow> c \<in> set s"
  by (cases s) (auto split: if_splits)

lemma re_exec_first_char:
  "re_exec (Lit (c # l) # r) s i \<noteq> None \<Longrightarrow> c \<in> set s"
proof (induction s arbitrary: i)
  case Nil
  then show ?case by (auto split: option.splits)
next
  case (Cons x xs)
  show ?case
  proof (cases "re_match (Lit (c # l) # r) (x # xs) i (i, i)")
    case None
    with Cons.prems have "re_exec (Lit (c # l) # r) xs (Suc i) \<noteq> None" by simp
    from Cons.IH[OF this] show ?thesis by simp
  next
    case (Some m)
    then have "re_match (Lit (c # l) # r) (x # xs) i (i, i) \<noteq> None" by simp
    then show ?thesis by (rule re_match_first_char)
  qed
qed

lemma no_backtick_no_fence: "0x60 \<notin> set text \<Longrightarrow> String_match text fenced_re = None"
proof -
  assume a: "0x60 \<notin> set text"
  have "re_exec fenced_re text 0 = None"
  proof (rule ccontr)
    assume "re_exec fenced_re text 0 \<noteq> None"
    then have "0x60 \<in> set text"
      unfolding fenced_re_def js_def by (simp only: list.map) (rule re_exec_first_char, simp)
    with a show False by simp
  qed
  then show ?thesis by (simp add: String_match_def)
qed

lemma no_brace_no_inline: "0x7B \<notin> set text \<Longrightarrow> String_match text inline_re = None"
proof -
  assume a: "0x7B \<notin> set text"
  have "re_exec inline_re text 0 = None"
  proof (rule ccontr)
    assume "re_exec inline_re text 0 \<noteq> None"
    then have "0x7B \<in> set text"
      unfolding inline_re_def js_def by (simp only: list.map) (rule re_exec_first_char, simp)
    with a show False by simp
  qed
  then show ?thesis by (simp add: String_match_def)
qed

text \<open>The examples: what the regular expressions match in them, and what is left.\<close>

lemmas message_defs = fence_def chart_message_def shadowed_message_def two_chart_message_def
  truncated_message_def
  inline_message_def unpriced_message_def unnamed_message_def aapl_json_def bare_json_def
  unpriced_json_def unnamed_json_def

lemmas re_eval = js_def is_ws_def fenced_re_def inline_re_def slice_def String_match_def

lemma example_parse:
  "JSON_parse example_platform aapl_json = Inr aapl_payload"
  "JSON_parse example_platform bare_json = Inr bare_payload"
  "JSON_parse example_platform unpriced_json = Inr unpriced_payload"
  "JSON_parse example_platform unnamed_json = Inr unnamed_payload"
  by (simp_all add: example_platform_def message_defs js_def)

lemma aapl_accepted: "acceptance_test aapl_payload"
  by (simp add: aapl_payload_def aapl_data_def acceptance_test_def strict_eq_str_def js_def)

lemma bare_accepted: "acceptance_test bare_payload"
  by (simp add: bare_payload_def acceptance_test_def strict_eq_str_def js_def)

lemma two_chart_match:
  "String_match two_chart_message fenced_re = Some (fence aapl_json, aapl_json)"
  by (simp add: message_defs re_eval)

lemma two_chart_inline:
  "String_match two_chart_message inline_re = Some (aapl_json, [])"
  by (simp add: message_defs re_eval)

lemma two_chart_rest:
  "trim (replace_first two_chart_message (fence aapl_json) []) = fence bare_json"
  by (simp add: message_defs js_def is_ws_def trim_def)




lemma truncated_match:
  \<open>String_match truncated_message fenced_re
     = Some (truncated_message, js ''{"type":"stock_chart","ticker":'')\<close>
  by (simp add: message_defs re_eval)

lemma truncated_inline: "String_match truncated_message inline_re = None"
  by (simp add: message_defs re_eval)

lemma truncated_parse: \<open>isl (JSON_parse example_platform (js ''{"type":"stock_chart","ticker":''))\<close>
  by (simp add: example_platform_def message_defs js_def)

lemma inline_no_fence: "String_match inline_message fenced_re = None"
  by (simp add: message_defs re_eval)

lemma inline_match: "String_match inline_message inline_re = Some (bare_json, [])"
  by (simp add: message_defs re_eval)

lemma inline_rest: "trim (replace_first inline_message bare_json []) = js ''Chart:''"
  by (simp add: message_defs js_def is_ws_def trim_def)

lemma inline_rendered:
  "textRenderer example_platform inline_message
     = Inr (ChartBlock (js ''Chart:'') (chart_props bare_payload))"
proof -
  have "accepted_payload example_platform bare_json = Some bare_payload"
    by (simp add: accepted_payload_Some example_parse bare_accepted)
  then show ?thesis
    by (simp add: textRenderer_search extract_payload_def fenced_attempt_def inline_attempt_def
        inline_no_fence inline_match found_def inline_rest)
qed

lemma unpriced_match: "re_exec fenced_re unpriced_message 0 = Some (0, 96, 8, 92)"
  by (simp add: message_defs re_eval)

lemma unpriced_slice: "slice unpriced_message 8 92 = unpriced_json"
  by (simp add: message_defs re_eval)

lemma unpriced_accepted: "acceptance_test unpriced_payload"
  by (simp add: unpriced_payload_def acceptance_test_def strict_eq_str_def js_def)

lemma unpriced_props:
  "data (chart_props unpriced_payload) =
     Arr [Obj [(js ''date'', Str (js ''2024-01-01'')), (js ''price'', Num (js_decimal 15025 2))]]"
  "current_price (chart_props unpriced_payload) = Undefined"
  by (simp_all add: unpriced_payload_def chart_props_def js_def)

lemma unpriced_rest: "trim (take 0 unpriced_message @ drop 96 unpriced_message) = []"
  by (simp add: message_defs re_eval trim_def)

lemma unnamed_match: "String_match unnamed_message fenced_re = Some (unnamed_message, unnamed_json)"
  by (simp add: message_defs re_eval)

lemma unnamed_inline: "String_match unnamed_message inline_re = Some (unnamed_json, [])"
  by (simp add: message_defs re_eval)

lemma unnamed_falsy: "falsy_field unnamed_payload"
  by (simp add: unnamed_payload_def js_def)

text \<open>
  C2.  For every text, \<^verbatim>\<open>textRenderer\<close> returns what the search order of the
  specification gives.  The fenced form is attempted first, and when it is accepted its
  payload is the result, whatever the inline form would find.  The inline form decides
  only if the fenced attempt fails (no match, a parse error, or a parsed value that does
  not pass the acceptance test).  The result holds one payload at most, that of the first
  accepted fragment, and the text comes back unchanged when neither attempt is accepted.
\<close>

theorem search_order:
  "textRenderer P text = Inr (rendered_of (extract_payload P text))
   \<and> (\<forall>v m0. fenced_attempt P text = Some (v, m0) \<longrightarrow>
         textRenderer P text = Inr (ChartBlock (trim (replace_first text m0 [])) (chart_props v)))
   \<and> (fenced_attempt P text = None \<longrightarrow>
        (\<forall>v m0. inline_attempt P text = Some (v, m0) \<longrightarrow>
           textRenderer P text = Inr (ChartBlock (trim (replace_first text m0 [])) (chart_props v))))
   \<and> (fenced_attempt P text = None \<and> inline_attempt P text = None \<longrightarrow>
        textRenderer P text = Inr (PlainText text))"
  by (simp add: textRenderer_search extract_payload_def found_def)

text \<open>
  A message with two fenced payloads, in which the inline form has a match as well: the
  first fenced payload is extracted, and the second block stays in the remaining text.
\<close>

theorem search_order_witness:
  "fenced_attempt example_platform two_chart_message = Some (aapl_payload, fence aapl_json)
   \<and> inline_attempt example_platform two_chart_message = Some (aapl_payload, aapl_json)
   \<and> textRenderer example_platform two_chart_message
       = Inr (ChartBlock (fence bare_json) (chart_props aapl_payload))"
proof -
  have p: "accepted_payload example_platform aapl_json = Some aapl_payload"
    by (simp add: accepted_payload_Some example_parse aapl_accepted)
  then have a: "fenced_attempt example_platform two_chart_message = Some (aapl_payload, fence aapl_json)"
    by (simp add: fenced_attempt_def two_chart_match)
  from p have b: "inline_attempt example_platform two_chart_message = Some (aapl_payload, aapl_json)"
    by (simp add: inline_attempt_def two_chart_inline)
  from search_order[of example_platform two_chart_message] a
  have "textRenderer example_platform two_chart_message
      = Inr (ChartBlock (trim (replace_first two_chart_message (fence aapl_json) []))
               (chart_props aapl_payload))"
    by blast
  with a b show ?thesis by (simp add: two_chart_rest)
qed




text \<open>
  C4.  \<^verbatim>\<open>textRenderer\<close> never throws.  It returns the text unchanged whenever, for
  each of the two forms, there is no match, or the matched source does not parse, or it
  parses to a value that does not pass the acceptance test (\<^verbatim>\<open>null\<close>, on which the
  test itself throws, is such a value).  In particular it returns unchanged every text
  with neither a backtick nor an opening brace.
\<close>

theorem no_payload_returns_text:
  "(\<exists>r. textRenderer P text = Inr r)
   \<and> ((String_match text fenced_re = None
         \<or> (\<exists>m0 m1. String_match text fenced_re = Some (m0, m1)
               \<and> (isl (JSON_parse P m1) \<or> (\<exists>v. JSON_parse P m1 = Inr v \<and> \<not> acceptance_test v))))
        \<and> (String_match text inline_re = None
         \<or> (\<exists>m0 m1. String_match text inline_re = Some (m0, m1)
               \<and> (isl (JSON_parse P m0) \<or> (\<exists>v. JSON_parse P m0 = Inr v \<and> \<not> acceptance_test v))))
       \<longrightarrow> textRenderer P text = Inr (PlainText text))
   \<and> (0x60 \<notin> set text \<and> 0x7B \<notin> set text \<longrightarrow> textRenderer P text = Inr (PlainText text))"
proof (intro conjI impI)
  show "\<exists>r. textRenderer P text = Inr r" by (simp add: textRenderer_search)
next
  assume h: "(String_match text fenced_re = None
         \<or> (\<exists>m0 m1. String_match text fenced_re = Some (m0, m1)
               \<and> (isl (JSON_parse P m1) \<or> (\<exists>v. JSON_parse P m1 = Inr v \<and> \<not> acceptance_test v))))
        \<and> (String_match text inline_re = None
         \<or> (\<exists>m0 m1. String_match text inline_re = Some (m0, m1)
               \<and> (isl (JSON_parse P m0) \<or> (\<exists>v. JSON_parse P m0 = Inr v \<and> \<not> acceptance_test v))))"
  from h have "fenced_attempt P text = None"
    unfolding fenced_attempt_def accepted_payload_None[symmetric] by (intro attempt_None) simp
  moreover from h have "inline_attempt P text = None"
    unfolding inline_attempt_def accepted_payload_None[symmetric]
    by (intro attempt_None[where f = "\<lambda>m0 m1. m0"]) simp
  ultimately show "textRenderer P text = Inr (PlainText text)"
    by (rule textRenderer_nothing_accepted)
next
  assume "0x60 \<notin> set text \<and> 0x7B \<notin> set text"
  then have "fenced_attempt P text = None" and "inline_attempt P text = None"
    by (simp_all add: fenced_attempt_def inline_attempt_def no_backtick_no_fence no_brace_no_inline)
  then show "textRenderer P text = Inr (PlainText text)"
    by (rule textRenderer_nothing_accepted)
qed

text \<open>A fenced block cut off in the middle of the payload: the parse error is caught.\<close>

theorem no_payload_returns_text_witness:
  \<open>String_match truncated_message fenced_re
     = Some (truncated_message, js ''{"type":"stock_chart","ticker":'')
   \<and> isl (JSON_parse example_platform (js ''{"type":"stock_chart","ticker":''))
   \<and> String_match truncated_message inline_re = None
   \<and> textRenderer example_platform truncated_message = Inr (PlainText truncated_message)\<close>
  using no_payload_returns_text[of example_platform truncated_message]
  by (simp add: truncated_match truncated_inline truncated_parse)

text \<open>
  C7.  The props of every payload that \<^verbatim>\<open>textRenderer\<close> hands to the renderer come
  from a parsed object that passed the acceptance test: the ticker is the object's, a
  missing \<^verbatim>\<open>company_name\<close> is replaced by the ticker and a missing \<^verbatim>\<open>period\<close> by
  \<^verbatim>\<open>"1mo"\<close>.  (A field that is there and falsy is replaced in the same way.)
\<close>

theorem missing_fields_default:
  assumes "textRenderer P text = Inr (ChartBlock t pr)"
  shows "\<exists>source kvs. JSON_parse P source = Inr (Obj kvs) \<and> acceptance_test (Obj kvs)
           \<and> map_of kvs (js ''ticker'') = Some (ticker pr)
           \<and> company_name pr =
               (case map_of kvs (js ''company_name'') of
                  None \<Rightarrow> ticker pr
                | Some c \<Rightarrow> if truthy c then c else ticker pr)
           \<and> period pr =
               (case map_of kvs (js ''period'') of
                  None \<Rightarrow> Str (js ''1mo'')
                | Some q \<Rightarrow> if truthy q then q else Str (js ''1mo''))"
proof -
  from textRenderer_Chart[OF assms] obtain source kvs
    where p: "JSON_parse P source = Inr (Obj kvs)" and a: "acceptance_test (Obj kvs)"
      and pr: "pr = chart_props (Obj kvs)" by blast
  from a have "map_of kvs (js ''ticker'') = Some (ticker pr)"
    unfolding pr by (auto simp: acceptance_test_def chart_props_def split: option.splits)
  moreover have "company_name pr =
               (case map_of kvs (js ''company_name'') of
                  None \<Rightarrow> ticker pr
                | Some c \<Rightarrow> if truthy c then c else ticker pr)"
    unfolding pr by (simp add: chart_props_def js_or_def split: option.splits)
  moreover have "period pr =
               (case map_of kvs (js ''period'') of
                  None \<Rightarrow> Str (js ''1mo'')
                | Some q \<Rightarrow> if truthy q then q else Str (js ''1mo''))"
    unfolding pr by (simp add: chart_props_def js_or_def split: option.splits)
  ultimately show ?thesis using p a by blast
qed

text \<open>An inline payload with neither field.\<close>

theorem missing_fields_default_witness:
  "textRenderer example_platform inline_message
     = Inr (ChartBlock (js ''Chart:'') (chart_props bare_payload))
   \<and> chart_props bare_payload =
       \<lparr>ticker = Str (js ''MSFT''), company_name = Str (js ''MSFT''), period = Str (js ''1mo''),
        data = Arr [], current_price = Undefined\<rparr>
   \<and> (\<exists>source kvs. JSON_parse example_platform source = Inr (Obj kvs) \<and> acceptance_test (Obj kvs)
         \<and> map_of kvs (js ''ticker'') = Some (ticker (chart_props bare_payload))
         \<and> company_name (chart_props bare_payload) =
               (case map_of kvs (js ''company_name'') of
                  None \<Rightarrow> ticker (chart_props bare_payload)
                | Some c \<Rightarrow> if truthy c then c else ticker (chart_props bare_payload))
         \<and> period (chart_props bare_payload) =
               (case map_of kvs (js ''period'') of
                  None \<Rightarrow> Str (js ''1mo'')
                | Some q \<Rightarrow> if truthy q then q else Str (js ''1mo'')))"
  using missing_fields_default[OF inline_rendered] inline_rendered bare_props by blast

text \<open>
  C9.  The acceptance test reads \<^verbatim>\<open>type\<close>, \<^verbatim>\<open>data\<close> and \<^verbatim>\<open>ticker\<close> only:
  removing \<^verbatim>\<open>current_price\<close> from an object never changes its outcome.  So the
  message \<open>unpriced_message\<close>, whose payload has one data point and no current price,
  is accepted, and \<^verbatim>\<open>StockChart\<close> throws a TypeError on the props it is given; it does
  so on all props with non-empty data and an undefined current price.
\<close>

theorem current_price_never_checked:
  "acceptance_test (Obj (filter (\<lambda>kv. fst kv \<noteq> js ''current_price'') kvs)) = acceptance_test (Obj kvs)
   \<and> (JSON_parse P unpriced_json = Inr unpriced_payload \<longrightarrow>
        textRenderer P unpriced_message = Inr (ChartBlock [] (chart_props unpriced_payload))
        \<and> current_price (chart_props unpriced_payload) = Undefined
        \<and> StockChart P (chart_props unpriced_payload) = Inl TypeError)
   \<and> (truthy (data pr) \<and> \<not> strict_eq_num (js_prop (data pr) (js ''length'')) js_zero
        \<and> current_price pr = Undefined \<longrightarrow> StockChart P pr = Inl TypeError)"
proof (intro conjI impI)
  show "acceptance_test (Obj (filter (\<lambda>kv. fst kv \<noteq> js ''current_price'') kvs)) = acceptance_test (Obj kvs)"
    by (simp add: acceptance_test_def map_of_filter_other)
next
  assume "JSON_parse P unpriced_json = Inr unpriced_payload"
  then have "JSON_parse P (slice unpriced_message 8 92) = Inr unpriced_payload"
    by (simp add: unpriced_slice)
  from textRenderer_fenced[OF unpriced_match this unpriced_accepted]
  show "textRenderer P unpriced_message = Inr (ChartBlock [] (chart_props unpriced_payload))"
    unfolding unpriced_rest .
next
  show "current_price (chart_props unpriced_payload) = Undefined" by (rule unpriced_props)
next
  have "truthy (data (chart_props unpriced_payload))
      \<and> \<not> strict_eq_num (js_prop (data (chart_props unpriced_payload)) (js ''length'')) js_zero"
    unfolding unpriced_props by (rule nonempty_array_has_data)
  then show "StockChart P (chart_props unpriced_payload) = Inl TypeError"
    using unpriced_props(2) by (simp add: StockChart_current_price_missing)
next
  assume "truthy (data pr) \<and> \<not> strict_eq_num (js_prop (data pr) (js ''length'')) js_zero
        \<and> current_price pr = Undefined"
  then show "StockChart P pr = Inl TypeError" by (simp add: StockChart_current_price_missing)
qed

text \<open>On the platform of the examples the payload parses as assumed.\<close>

theorem current_price_never_checked_witness:
  "JSON_parse example_platform unpriced_json = Inr unpriced_payload
   \<and> textRenderer example_platform unpriced_message = Inr (ChartBlock [] (chart_props unpriced_payload))
   \<and> StockChart example_platform (chart_props unpriced_payload) = Inl TypeError"
  using current_price_never_checked[of "[]" example_platform "chart_props unpriced_payload"]
  by (simp add: example_parse)

text \<open>
  C10.  The presence checks are truthiness checks.  A parsed fragment with the right
  discriminator whose ticker is the empty string, or whose data is \<^verbatim>\<open>null\<close>,
  \<^verbatim>\<open>0\<close> or \<^verbatim>\<open>false\<close>, fails the acceptance test; a text in which every fragment
  that the two attempts look at is such a fragment comes back unchanged; and an object
  with the right discriminator, a truthy ticker and an empty array as data passes the
  test.
\<close>

theorem presence_checks_are_truthiness:
  "(falsy_field v \<longrightarrow> \<not> acceptance_test v)
   \<and> ((\<forall>m0 m1. String_match text fenced_re = Some (m0, m1) \<longrightarrow>
            (\<exists>v. JSON_parse P m1 = Inr v \<and> falsy_field v))
        \<and> (\<forall>m0 m1. String_match text inline_re = Some (m0, m1) \<longrightarrow>
            (\<exists>v. JSON_parse P m0 = Inr v \<and> falsy_field v))
       \<longrightarrow> textRenderer P text = Inr (PlainText text))
   \<and> (map_of kvs (js ''type'') = Some (Str (js ''stock_chart''))
        \<and> map_of kvs (js ''data'') = Some (Arr []) \<and> map_of kvs (js ''ticker'') = Some k \<and> truthy k
       \<longrightarrow> acceptance_test (Obj kvs))"
proof (intro conjI impI)
  assume "falsy_field v"
  then show "\<not> acceptance_test v" by (rule falsy_field_rejected)
next
  assume h: "(\<forall>m0 m1. String_match text fenced_re = Some (m0, m1) \<longrightarrow>
            (\<exists>v. JSON_parse P m1 = Inr v \<and> falsy_field v))
        \<and> (\<forall>m0 m1. String_match text inline_re = Some (m0, m1) \<longrightarrow>
            (\<exists>v. JSON_parse P m0 = Inr v \<and> falsy_field v))"
  have "fenced_attempt P text = None"
  proof (cases "String_match text fenced_re")
    case None
    then show ?thesis by (simp add: fenced_attempt_def)
  next
    case (Some m)
    obtain m0 m1 where m: "m = (m0, m1)" by (cases m)
    with h Some obtain v where "JSON_parse P m1 = Inr v" "falsy_field v" by blast
    then have "accepted_payload P m1 = None"
      by (auto simp: accepted_payload_None dest: falsy_field_rejected)
    with Some m show ?thesis by (simp add: fenced_attempt_def)
  qed
  moreover have "inline_attempt P text = None"
  proof (cases "String_match text inline_re")
    case None
    then show ?thesis by (simp add: inline_attempt_def)
  next
    case (Some m)
    obtain m0 m1 where m: "m = (m0, m1)" by (cases m)
    with h Some obtain v where "JSON_parse P m0 = Inr v" "falsy_field v" by blast
    then have "accepted_payload P m0 = None"
      by (auto simp: accepted_payload_None dest: falsy_field_rejected)
    with Some m show ?thesis by (simp add: inline_attempt_def)
  qed
  ultimately show "textRenderer P text = Inr (PlainText text)"
    by (rule textRenderer_nothing_accepted)
next
  assume "map_of kvs (js ''type'') = Some (Str (js ''stock_chart''))
        \<and> map_of kvs (js ''data'') = Some (Arr []) \<and> map_of kvs (js ''ticker'') = Some k \<and> truthy k"
  then show "acceptance_test (Obj kvs)" by (simp add: acceptance_test_def strict_eq_str_def)
qed

text \<open>
  A fenced payload with an empty ticker: both attempts find it, both reject it.  The
  payload with empty data and a ticker is accepted.
\<close>

theorem presence_checks_are_truthiness_witness:
  "String_match unnamed_message fenced_re = Some (unnamed_message, unnamed_json)
   \<and> String_match unnamed_message inline_re = Some (unnamed_json, [])
   \<and> JSON_parse example_platform unnamed_json = Inr unnamed_payload
   \<and> falsy_field unnamed_payload
   \<and> \<not> acceptance_test unnamed_payload
   \<and> textRenderer example_platform unnamed_message = Inr (PlainText unnamed_message)
   \<and> acceptance_test bare_payload"
  using presence_checks_are_truthiness[of unnamed_payload unnamed_message example_platform
      "[(js ''type'', Str (js ''stock_chart'')), (js ''ticker'', Str (js ''MSFT'')),
          (js ''data'', Arr [])]" "Str (js ''MSFT'')"]
  by (simp add: unnamed_match unnamed_inline unnamed_falsy example_parse bare_payload_def)
     (simp add: js_def)

end
